theory Spec2Isabelle
  imports Complex_Main "HOL-Library.Monad_Syntax"
begin

section \<open>Strings and the sanitizer\<close>

text \<open>
  A JavaScript string is a sequence of UTF-16 code units; \<open>length\<close> counts code units,
  as \<^verbatim>\<open>.length\<close> does. \<open>js\<close> turns an ASCII literal into its code units.
\<close>

type_synonym jsstring = "nat list"

definition js :: "string \<Rightarrow> jsstring" where
  "js s = map of_char s"

text \<open>\<^verbatim>\<open>\w\<close> of a regular expression without the \<^verbatim>\<open>u\<close> flag: \<^verbatim>\<open>[A-Za-z0-9_]\<close>.\<close>

definition is_word :: "nat \<Rightarrow> bool" where
  "is_word c \<longleftrightarrow> (48 \<le> c \<and> c \<le> 57) \<or> (65 \<le> c \<and> c \<le> 90) \<or> c = 95 \<or> (97 \<le> c \<and> c \<le> 122)"

text \<open>
  \<^verbatim>\<open>\s\<close> and the characters removed by \<^verbatim>\<open>String.prototype.trim\<close>: white space and line
  terminators (TAB, LF, VT, FF, CR, SP, NBSP, U+1680, U+2000 to U+200A, U+2028, U+2029,
  U+202F, U+205F, U+3000, U+FEFF).
\<close>

definition is_space :: "nat \<Rightarrow> bool" where
  "is_space c \<longleftrightarrow> (9 \<le> c \<and> c \<le> 13) \<or> c = 32 \<or> c = 160 \<or> c = 5760
     \<or> (8192 \<le> c \<and> c \<le> 8202) \<or> c = 8232 \<or> c = 8233 \<or> c = 8239 \<or> c = 8287
     \<or> c = 12288 \<or> c = 65279"

text \<open>
  Case folding of the \<^verbatim>\<open>i\<close> flag (without \<^verbatim>\<open>u\<close>) as far as it concerns ASCII patterns:
  a code unit of 128 or more never folds to an ASCII character.
\<close>

definition upper :: "nat \<Rightarrow> nat" where
  "upper c = (if 97 \<le> c \<and> c \<le> 122 then c - 32 else c)"

fun ci_prefix :: "jsstring \<Rightarrow> jsstring \<Rightarrow> bool" where
  "ci_prefix [] s = True"
| "ci_prefix (p # ps) [] = False"
| "ci_prefix (p # ps) (c # cs) = (upper p = upper c \<and> ci_prefix ps cs)"

text \<open>
  \<^verbatim>\<open>/<script\b[^<]*(?:(?!<\/script>)<[^<]*)*<\/script>/gi\<close> tried at the start of a string;
  the result is the length of the match. After \<^verbatim>\<open><script\b\<close> the body
  \<^verbatim>\<open>[^<]*(?:(?!<\/script>)<[^<]*)*\<close> passes every character other than \<^verbatim>\<open><\<close>, and a
  \<^verbatim>\<open><\<close> only where no closing tag starts; so the match ends with the first closing tag,
  and there is none when no closing tag follows.
\<close>

fun script_body :: "jsstring \<Rightarrow> nat option" where
  "script_body [] = None"
| "script_body (c # cs) =
    (if c \<noteq> 60 then map_option Suc (script_body cs)
     else if ci_prefix (js ''</script>'') (c # cs) then Some 9
     else map_option Suc (script_body cs))"

definition match_script :: "jsstring \<Rightarrow> nat option" where
  "match_script s =
    (if ci_prefix (js ''<script'') s \<and> (case drop 7 s of [] \<Rightarrow> True | c # _ \<Rightarrow> \<not> is_word c)
     then map_option (\<lambda>n. 7 + n) (script_body (drop 7 s)) else None)"

text \<open>\<^verbatim>\<open>/javascript:/gi\<close> tried at the start of a string.\<close>

definition match_javascript :: "jsstring \<Rightarrow> nat option" where
  "match_javascript s = (if ci_prefix (js ''javascript:'') s then Some 11 else None)"

text \<open>
  \<^verbatim>\<open>/on\w+\s*=/gi\<close> tried at the start of a string: the longest run of word characters
  (at least one), the longest run of white space, then \<^verbatim>\<open>=\<close>. A shorter run cannot be
  followed by \<^verbatim>\<open>=\<close>, so backtracking finds no other match.
\<close>

definition match_handler :: "jsstring \<Rightarrow> nat option" where
  "match_handler s =
    (if ci_prefix (js ''on'') s then
       (let w = takeWhile is_word (drop 2 s);
            r = dropWhile is_word (drop 2 s);
            sp = takeWhile is_space r
        in (case dropWhile is_space r of
              [] \<Rightarrow> None
            | c # _ \<Rightarrow> if w \<noteq> [] \<and> c = 61 then Some (2 + length w + length sp + 1) else None))
     else None)"

text \<open>
  \<^verbatim>\<open>input.replace(re, "")\<close> for a global regular expression: matches are looked for from
  left to right, the search resuming after each match; \<open>m\<close> gives the length of the match
  at the start of a string. An empty match would remove nothing.
\<close>

fun replace_all :: "(jsstring \<Rightarrow> nat option) \<Rightarrow> jsstring \<Rightarrow> jsstring" where
  "replace_all m [] = []"
| "replace_all m (c # cs) =
    (case m (c # cs) of
       None \<Rightarrow> c # replace_all m cs
     | Some n \<Rightarrow> (if n = 0 then c # replace_all m cs else replace_all m (drop (n - 1) cs)))"

definition trim :: "jsstring \<Rightarrow> jsstring" where
  "trim s = rev (dropWhile is_space (rev (dropWhile is_space s)))"

definition sanitizeInput :: "jsstring \<Rightarrow> jsstring" where
  "sanitizeInput input =
     trim (replace_all match_handler (replace_all match_javascript (replace_all match_script input)))"

text \<open>Whether a pattern still matches somewhere in a string.\<close>

fun has_match :: "(jsstring \<Rightarrow> nat option) \<Rightarrow> jsstring \<Rightarrow> bool" where
  "has_match m [] = False"
| "has_match m (c # cs) =
    ((case m (c # cs) of None \<Rightarrow> False | Some n \<Rightarrow> 0 < n) \<or> has_match m cs)"

definition clean :: "jsstring \<Rightarrow> bool" where
  "clean s \<longleftrightarrow> \<not> has_match match_script s \<and> \<not> has_match match_javascript s
     \<and> \<not> has_match match_handler s"

section \<open>Values of the runtime\<close>

text \<open>
  Numbers: the finite values, the two infinities and NaN. The sign of zero is not kept:
  the only number the code tests is replaced by \<open>0\<close> when it is falsy.
\<close>

datatype jsnum = NaN | NegInf | Fin real | PosInf

fun num_le :: "jsnum \<Rightarrow> jsnum \<Rightarrow> bool" where
  "num_le NegInf b = True"
| "num_le a PosInf = True"
| "num_le (Fin x) (Fin y) = (x \<le> y)"
| "num_le a b = False"

definition Math_min :: "jsnum \<Rightarrow> jsnum \<Rightarrow> jsnum" where
  "Math_min a b = (if a = NaN \<or> b = NaN then NaN else if num_le a b then a else b)"

definition Math_max :: "jsnum \<Rightarrow> jsnum \<Rightarrow> jsnum" where
  "Math_max a b = (if a = NaN \<or> b = NaN then NaN else if num_le a b then b else a)"

text \<open>What \<^verbatim>\<open>JSON.parse\<close> returns, and \<^verbatim>\<open>undefined\<close> for a property that is absent.\<close>

datatype jsval =
    JUndefined
  | JNull
  | JBool bool
  | JNum jsnum
  | JStr jsstring
  | JArr "jsval list"
  | JObj "(jsstring \<times> jsval) list"

text \<open>
  Reading a property: a \<^verbatim>\<open>TypeError\<close> (\<open>None\<close>) on \<^verbatim>\<open>null\<close> and \<^verbatim>\<open>undefined\<close>,
  \<^verbatim>\<open>undefined\<close> where the property is absent. None of the names the code reads is a
  property of a string, a number, a boolean or an array.
\<close>

fun get_prop :: "jsval \<Rightarrow> jsstring \<Rightarrow> jsval option" where
  "get_prop JUndefined k = None"
| "get_prop JNull k = None"
| "get_prop (JObj kvs) k = (case map_of kvs k of None \<Rightarrow> Some JUndefined | Some v \<Rightarrow> Some v)"
| "get_prop v k = Some JUndefined"

fun truthy :: "jsval \<Rightarrow> bool" where
  "truthy JUndefined = False"
| "truthy JNull = False"
| "truthy (JBool b) = b"
| "truthy (JNum n) = (n \<noteq> NaN \<and> n \<noteq> Fin 0)"
| "truthy (JStr s) = (s \<noteq> [])"
| "truthy (JArr xs) = True"
| "truthy (JObj kvs) = True"

text \<open>\<^verbatim>\<open>a || b\<close>.\<close>

definition or_js :: "jsval \<Rightarrow> jsval \<Rightarrow> jsval" where
  "or_js a b = (if truthy a then a else b)"

text \<open>
  \<^verbatim>\<open>Number(v)\<close>. The conversion of a string, an array or an object is the runtime's
  (it parses text and rounds to a double); its result \<open>conv\<close> is an input of the model.
\<close>

fun Number :: "jsnum \<Rightarrow> jsval \<Rightarrow> jsnum" where
  "Number conv JUndefined = NaN"
| "Number conv JNull = Fin 0"
| "Number conv (JBool b) = Fin (if b then 1 else 0)"
| "Number conv (JNum n) = n"
| "Number conv v = conv"

text \<open>\<^verbatim>\<open>n || 0\<close> for a number \<open>n\<close>.\<close>

definition or_zero :: "jsnum \<Rightarrow> jsnum" where
  "or_zero n = (if n = NaN \<or> n = Fin 0 then Fin 0 else n)"

section \<open>Entities and bounded history buffers\<close>

datatype ident = TransId int jsstring | FeedbackId int | SnapshotId int

record Snapshot =
  snap_id :: ident
  snap_code :: jsstring
  snap_timestamp :: int
  snap_language :: jsstring

record TranscriptionSegment =
  seg_id :: ident
  seg_text :: jsstring
  seg_timestamp :: int
  seg_confidence :: real

record AIFeedback =
  fb_id :: ident
  fb_timestamp :: int
  score :: jsnum
  strengths :: "jsstring list"
  improvements :: "jsstring list"
  optimizations :: "jsstring list"
  codeAnalysis :: jsstring
  speechAnalysis :: jsstring

datatype difficulty = Easy | Medium | Hard

fun difficulty_text :: "difficulty \<Rightarrow> jsstring" where
  "difficulty_text Easy = js ''Easy''"
| "difficulty_text Medium = js ''Medium''"
| "difficulty_text Hard = js ''Hard''"

text \<open>The fields of a catalogue problem that the session core reads.\<close>

record LeetCodeProblem =
  title :: jsstring
  difficulty :: difficulty
  category :: jsstring

text \<open>\<^verbatim>\<open>[...prev.slice(-49), segment]\<close>\<close>

definition push_transcription :: "'a list \<Rightarrow> 'a \<Rightarrow> 'a list" where
  "push_transcription prev segment = drop (length prev - 49) prev @ [segment]"

text \<open>\<^verbatim>\<open>[snapshot, ...prev.slice(0, 9)]\<close>\<close>

definition push_snapshot :: "'a list \<Rightarrow> 'a \<Rightarrow> 'a list" where
  "push_snapshot prev snapshot = snapshot # take 9 prev"

text \<open>\<^verbatim>\<open>[newFeedback, ...prev.slice(0, 4)]\<close>\<close>

definition push_feedback :: "'a list \<Rightarrow> 'a \<Rightarrow> 'a list" where
  "push_feedback prev newFeedback = newFeedback # take 4 prev"

section \<open>The session view: state and writes\<close>

datatype question_type = Leetcode | Custom

datatype ready_state = CONNECTING | OPEN | CLOSING | CLOSED

datatype task = Reconnect | IndicatorOff

text \<open>
  The state of the component \<^verbatim>\<open>InterviewHelper\<close>: its \<^verbatim>\<open>useState\<close> cells, its refs
  (\<open>wsReady\<close> is \<^verbatim>\<open>wsRef.current?.readyState\<close>, \<open>None\<close> while the ref is null;
  \<open>connectionRetry\<close> the timer handle in \<^verbatim>\<open>connectionRetryRef\<close>) and the timers of the
  event loop that are pending, by handle, with the time they are due and their task. Times
  are milliseconds.
\<close>

record state =
  code :: jsstring
  language :: jsstring
  isConnected :: bool
  isPaused :: bool
  isTranscribing :: bool
  snapshots :: "Snapshot list"
  transcription :: "TranscriptionSegment list"
  feedback :: "AIFeedback list"
  isEvaluating :: bool
  apiServerConnected :: bool
  questionType :: question_type
  selectedProblem :: "LeetCodeProblem option"
  customQuestion :: jsstring
  searchTerm :: jsstring
  sessionStarted :: bool
  wsReady :: "ready_state option"
  lastApiCall :: int
  connectionRetry :: "nat option"
  timers :: "nat \<rightharpoonup> int \<times> task"
  nextTimer :: nat

definition initial_state :: state where
  "initial_state =
    \<lparr>code = [], language = js ''javascript'', isConnected = False, isPaused = False,
     isTranscribing = False, snapshots = [], transcription = [], feedback = [],
     isEvaluating = False, apiServerConnected = False, questionType = Leetcode,
     selectedProblem = None, customQuestion = [], searchTerm = [], sessionStarted = False,
     wsReady = None, lastApiCall = 0, connectionRetry = None, timers = Map.empty,
     nextTimer = 0\<rparr>"

text \<open>The body of an evaluation request.\<close>

record evaluation_data =
  p_code :: jsstring
  p_transcript :: jsstring
  p_language :: jsstring
  p_question :: jsstring
  p_problem_details :: "(jsstring \<times> difficulty \<times> jsstring) option"
  p_timestamp :: int

datatype ws_message = SessionStart int jsstring | PauseSession int | ResumeSession int

text \<open>
  What a handler does, in program order: writes to state cells and refs, timers, and the
  calls that leave the component (\<open>Fetch\<close> is the dispatch of an evaluation request).
  \<open>PushTranscription\<close>, \<open>PushFeedback\<close> and \<open>PushSnapshot\<close> are the three functional
  updates \<^verbatim>\<open>set...((prev) => ...)\<close>.
\<close>

datatype action =
    WriteLastApiCall int
  | SetIsEvaluating bool
  | Fetch evaluation_data
  | PushFeedback AIFeedback
  | PushSnapshot Snapshot
  | SetApiServerConnected bool
  | SetIsTranscribing bool
  | PushTranscription TranscriptionSegment
  | SetTimeout int task
  | SetIsConnected bool
  | ScheduleRetry int
  | ClearRetry
  | NewWebSocket
  | WsSend ws_message
  | WsClose
  | SetCode jsstring
  | SetSnapshots "Snapshot list"
  | SetTranscription "TranscriptionSegment list"
  | SetFeedback "AIFeedback list"
  | SetSessionStarted bool
  | SetSelectedProblem "LeetCodeProblem option"
  | SetCustomQuestion jsstring
  | SetSearchTerm jsstring
  | SetIsPaused bool

fun exec :: "int \<Rightarrow> action \<Rightarrow> state \<Rightarrow> state" where
  "exec now (WriteLastApiCall t) s = s\<lparr>lastApiCall := t\<rparr>"
| "exec now (SetIsEvaluating b) s = s\<lparr>isEvaluating := b\<rparr>"
| "exec now (Fetch d) s = s"
| "exec now (PushFeedback f) s = s\<lparr>feedback := push_feedback (feedback s) f\<rparr>"
| "exec now (PushSnapshot p) s = s\<lparr>snapshots := push_snapshot (snapshots s) p\<rparr>"
| "exec now (SetApiServerConnected b) s = s\<lparr>apiServerConnected := b\<rparr>"
| "exec now (SetIsTranscribing b) s = s\<lparr>isTranscribing := b\<rparr>"
| "exec now (PushTranscription g) s =
     s\<lparr>transcription := push_transcription (transcription s) g\<rparr>"
| "exec now (SetTimeout d k) s =
     s\<lparr>timers := (timers s)(nextTimer s \<mapsto> (now + d, k)), nextTimer := Suc (nextTimer s)\<rparr>"
| "exec now (SetIsConnected b) s = s\<lparr>isConnected := b\<rparr>"
| "exec now (ScheduleRetry d) s =
     s\<lparr>timers := (timers s)(nextTimer s \<mapsto> (now + d, Reconnect)),
       connectionRetry := Some (nextTimer s), nextTimer := Suc (nextTimer s)\<rparr>"
| "exec now ClearRetry s =
     (case connectionRetry s of None \<Rightarrow> s | Some h \<Rightarrow> s\<lparr>timers := (timers s)(h := None)\<rparr>)"
| "exec now NewWebSocket s = s\<lparr>wsReady := Some CONNECTING\<rparr>"
| "exec now (WsSend m) s = s"
| "exec now WsClose s =
     (case wsReady s of None \<Rightarrow> s | Some r \<Rightarrow> if r = CLOSED then s else s\<lparr>wsReady := Some CLOSING\<rparr>)"
| "exec now (SetCode c) s = s\<lparr>code := c\<rparr>"
| "exec now (SetSnapshots xs) s = s\<lparr>snapshots := xs\<rparr>"
| "exec now (SetTranscription xs) s = s\<lparr>transcription := xs\<rparr>"
| "exec now (SetFeedback xs) s = s\<lparr>feedback := xs\<rparr>"
| "exec now (SetSessionStarted b) s = s\<lparr>sessionStarted := b\<rparr>"
| "exec now (SetSelectedProblem p) s = s\<lparr>selectedProblem := p\<rparr>"
| "exec now (SetCustomQuestion q) s = s\<lparr>customQuestion := q\<rparr>"
| "exec now (SetSearchTerm q) s = s\<lparr>searchTerm := q\<rparr>"
| "exec now (SetIsPaused b) s = s\<lparr>isPaused := b\<rparr>"

definition run :: "int \<Rightarrow> action list \<Rightarrow> state \<Rightarrow> state" where
  "run now acts s = foldl (\<lambda>s a. exec now a s) s acts"

fun is_fetch :: "action \<Rightarrow> bool" where
  "is_fetch (Fetch d) = True"
| "is_fetch a = False"

text \<open>The number of evaluation requests dispatched.\<close>

definition dispatches :: "action list \<Rightarrow> nat" where
  "dispatches acts = length (filter is_fetch acts)"

fun is_push :: "action \<Rightarrow> bool" where
  "is_push (PushFeedback f) = True"
| "is_push (PushSnapshot p) = True"
| "is_push (PushTranscription g) = True"
| "is_push a = False"

section \<open>The evaluation request coordinator\<close>

text \<open>\<^verbatim>\<open>xs.join(" ")\<close>\<close>

fun join_space :: "jsstring list \<Rightarrow> jsstring" where
  "join_space [] = []"
| "join_space [x] = x"
| "join_space (x # y # ys) = x @ 32 # join_space (y # ys)"

definition getCurrentQuestion :: "state \<Rightarrow> jsstring" where
  "getCurrentQuestion s =
    (case (if questionType s = Leetcode then selectedProblem s else None) of
       Some p \<Rightarrow> js ''LeetCode Problem: '' @ title p @ js '' ('' @ difficulty_text (difficulty p) @ js '')''
     | None \<Rightarrow>
         if questionType s = Custom \<and> trim (customQuestion s) \<noteq> []
         then js ''Custom Question: '' @ take 100 (trim (customQuestion s)) @ js ''...''
         else js ''No question selected'')"

definition evaluationData :: "state \<Rightarrow> jsstring \<Rightarrow> int \<Rightarrow> evaluation_data" where
  "evaluationData s sanitizedCode now =
    \<lparr>p_code = take 5000 sanitizedCode,
     p_transcript = take 2000 (join_space (map (\<lambda>t. sanitizeInput (seg_text t)) (transcription s))),
     p_language = sanitizeInput (language s),
     p_question = getCurrentQuestion s,
     p_problem_details =
       (if questionType s = Leetcode
        then map_option (\<lambda>p. (title p, difficulty p, category p)) (selectedProblem s)
        else None),
     p_timestamp = now\<rparr>"

text \<open>
  \<^verbatim>\<open>Array.isArray(v) ? v.slice(0, 5).map((s) => sanitizeInput(s.substring(0, 200))) : []\<close>;
  \<open>None\<close> is the \<^verbatim>\<open>TypeError\<close> of \<^verbatim>\<open>s.substring\<close> on an element that is not a string.
\<close>

fun item_text :: "jsval \<Rightarrow> jsstring option" where
  "item_text (JStr x) = Some (sanitizeInput (take 200 x))"
| "item_text v = None"

fun text_list :: "jsval \<Rightarrow> jsstring list option" where
  "text_list (JArr xs) = those (map item_text (take 5 xs))"
| "text_list v = Some []"

text \<open>\<^verbatim>\<open>sanitizeInput((v || fallback).substring(0, 500))\<close>\<close>

fun analysis_text :: "jsval \<Rightarrow> jsstring \<Rightarrow> jsstring option" where
  "analysis_text v fallback =
    (case or_js v (JStr fallback) of
       JStr x \<Rightarrow> Some (sanitizeInput (take 500 x))
     | _ \<Rightarrow> None)"

text \<open>\<^verbatim>\<open>Math.max(0, Math.min(10, Number(v) || 0))\<close>\<close>

definition coerce_score :: "jsnum \<Rightarrow> jsval \<Rightarrow> jsnum" where
  "coerce_score conv v = Math_max (Fin 0) (Math_min (Fin 10) (or_zero (Number conv v)))"

text \<open>
  The object \<^verbatim>\<open>newFeedback\<close> built from the parsed response body \<open>result\<close>; \<open>None\<close> when
  building it throws.
\<close>

definition newFeedback :: "jsnum \<Rightarrow> int \<Rightarrow> jsval \<Rightarrow> AIFeedback option" where
  "newFeedback conv now result = do {
     sc \<leftarrow> get_prop result (js ''score'');
     st \<leftarrow> get_prop result (js ''strengths'');
     sts \<leftarrow> text_list st;
     im \<leftarrow> get_prop result (js ''improvements'');
     ims \<leftarrow> text_list im;
     ot \<leftarrow> get_prop result (js ''optimizations'');
     ots \<leftarrow> text_list ot;
     ca \<leftarrow> get_prop result (js ''code_analysis'');
     cas \<leftarrow> analysis_text ca (js ''Code analysis completed'');
     sa \<leftarrow> get_prop result (js ''speech_analysis'');
     sas \<leftarrow> analysis_text sa (js ''Speech analysis completed'');
     Some \<lparr>fb_id = FeedbackId now, fb_timestamp = now, score = coerce_score conv sc,
           strengths = sts, improvements = ims, optimizations = ots,
           codeAnalysis = cas, speechAnalysis = sas\<rparr>
   }"

text \<open>
  How the call of \<^verbatim>\<open>fetch\<close> ends: it rejects (a network error, or the abort after
  15 seconds), or it answers with a status and a body, \<open>None\<close> when the body is not JSON.
\<close>

datatype fetch_result = FetchRejected | Response nat "jsval option"

text \<open>The part of \<^verbatim>\<open>requestFeedback\<close> after the \<^verbatim>\<open>await\<close>, inside \<^verbatim>\<open>try\<close>.\<close>

definition on_response :: "state \<Rightarrow> jsstring \<Rightarrow> fetch_result \<Rightarrow> jsnum \<Rightarrow> int \<Rightarrow> action list" where
  "on_response s sanitizedCode res conv now2 =
    (case res of
       FetchRejected \<Rightarrow> [SetApiServerConnected False]
     | Response status body \<Rightarrow>
         if \<not> (200 \<le> status \<and> status \<le> 299) then [SetApiServerConnected False]
         else (case body of
                 None \<Rightarrow> [SetApiServerConnected False]
               | Some result \<Rightarrow>
                   (case newFeedback conv now2 result of
                      None \<Rightarrow> [SetApiServerConnected False]
                    | Some fb \<Rightarrow>
                        [PushFeedback fb,
                         PushSnapshot \<lparr>snap_id = SnapshotId now2, snap_code = sanitizedCode,
                           snap_timestamp = now2, snap_language = sanitizeInput (language s)\<rparr>,
                         SetApiServerConnected True])))"

text \<open>
  \<^verbatim>\<open>requestFeedback\<close> called at time \<open>now\<close> on the rendered state \<open>s\<close>; the request, when
  one is dispatched, ends with \<open>res\<close> at time \<open>now2\<close>, and \<open>conv\<close> is what the runtime
  makes of a score that is a string, an array or an object.
\<close>

definition requestFeedback :: "state \<Rightarrow> int \<Rightarrow> fetch_result \<Rightarrow> jsnum \<Rightarrow> int \<Rightarrow> action list" where
  "requestFeedback s now res conv now2 =
    (if now - lastApiCall s < 2000 then []
     else WriteLastApiCall now #
       (if trim (code s) = [] \<or> 10000 < length (code s) then []
        else SetIsEvaluating True #
          (let sanitizedCode = sanitizeInput (trim (code s)) in
           if sanitizedCode = [] then []
           else Fetch (evaluationData s sanitizedCode now) #
                on_response s sanitizedCode res conv now2)
          @ [SetIsEvaluating False]))"

text \<open>An accepted request failed: the dispatch, the status, the body or the coercion.\<close>

fun failed :: "jsnum \<Rightarrow> int \<Rightarrow> fetch_result \<Rightarrow> bool" where
  "failed conv now2 FetchRejected = True"
| "failed conv now2 (Response status None) = True"
| "failed conv now2 (Response status (Some result)) =
     (\<not> (200 \<le> status \<and> status \<le> 299) \<or> newFeedback conv now2 result = None)"

section \<open>The session scheduler and reset\<close>

text \<open>
  The effect "Auto-request feedback" keeps a 60-second interval exactly while its
  condition holds; its cleanup clears the interval before every re-run.
\<close>

definition auto_feedback :: "state \<Rightarrow> bool" where
  "auto_feedback s \<longleftrightarrow> \<not> isPaused s \<and> sessionStarted s \<and> transcription s \<noteq> []"

definition handleReset :: "action list" where
  "handleReset =
    [SetCode [], SetSnapshots [], SetTranscription [], SetFeedback [],
     SetSessionStarted False, SetSelectedProblem None, SetCustomQuestion [], SetSearchTerm []]"

definition togglePause :: "state \<Rightarrow> int \<Rightarrow> action list" where
  "togglePause s now =
    SetIsPaused (\<not> isPaused s) #
    (if wsReady s = Some OPEN
     then [WsSend (if isPaused s then ResumeSession now else PauseSession now)] else [])"

section \<open>The connection state machine\<close>

text \<open>\<open>ctor_ok\<close>: the constructor \<^verbatim>\<open>new WebSocket(WS_URL)\<close> did not throw.\<close>

definition connectWebSocket :: "bool \<Rightarrow> state \<Rightarrow> action list" where
  "connectWebSocket ctor_ok s =
    (if wsReady s = Some OPEN then []
     else if ctor_ok then [NewWebSocket]
     else [SetIsConnected False, ScheduleRetry 5000])"

definition ws_onopen :: "state \<Rightarrow> int \<Rightarrow> action list" where
  "ws_onopen s now =
    SetIsConnected True #
    (if connectionRetry s \<noteq> None then [ClearRetry] else []) @
    [WsSend (SessionStart now (sanitizeInput (language s)))]"

definition ws_onclose :: "action list" where
  "ws_onclose = [SetIsConnected False, SetIsTranscribing False, ScheduleRetry 5000]"

definition ws_onerror :: "action list" where
  "ws_onerror = [SetIsConnected False, SetIsTranscribing False]"

text \<open>
  The cleanup of the effect that connects, run when the component unmounts or the effect
  re-runs: it clears the retry timer and closes the channel (it also clears the two
  intervals, of the scheduler and of the health poller, which are no part of this state).
  Nothing else in the component closes the channel.
\<close>

definition effect_cleanup :: "state \<Rightarrow> action list" where
  "effect_cleanup s =
    (if connectionRetry s \<noteq> None then [ClearRetry] else []) @
    (if wsReady s \<noteq> None then [WsClose] else [])"

text \<open>
  \<^verbatim>\<open>sanitizeInput(data.text || data.message || data.transcript || data.content || "")\<close>;
  \<open>None\<close> when it throws: \<open>data\<close> is \<^verbatim>\<open>null\<close>, or the value chosen is not a string and has
  no method \<^verbatim>\<open>replace\<close>.
\<close>

definition extract_text :: "jsval \<Rightarrow> jsstring option" where
  "extract_text data = do {
     t \<leftarrow> get_prop data (js ''text'');
     m \<leftarrow> get_prop data (js ''message'');
     r \<leftarrow> get_prop data (js ''transcript'');
     c \<leftarrow> get_prop data (js ''content'');
     (case or_js (or_js (or_js (or_js t m) r) c) (JStr []) of
        JStr x \<Rightarrow> Some (sanitizeInput x)
      | _ \<Rightarrow> None)
   }"

definition push_segment :: "int \<Rightarrow> jsstring \<Rightarrow> jsstring \<Rightarrow> action list" where
  "push_segment now rnd transcriptionText =
    (if transcriptionText \<noteq> [] \<and> length transcriptionText < 1000
     then [PushTranscription \<lparr>seg_id = TransId now rnd, seg_text = transcriptionText,
             seg_timestamp = now, seg_confidence = 1\<rparr>,
           SetIsTranscribing True,
           SetTimeout 1000 IndicatorOff]
     else [])"

text \<open>
  \<^verbatim>\<open>onmessage\<close> for the payload \<open>event_data\<close>, at time \<open>now\<close>, \<open>rnd\<close> the random suffix of
  the segment id. \<open>parsed\<close> is what \<^verbatim>\<open>JSON.parse(rawData)\<close> gives for the sanitized
  payload, \<open>None\<close> when it throws. The inner \<^verbatim>\<open>catch\<close> covers the parsing and the
  extraction of the text alike.
\<close>

definition ws_onmessage :: "int \<Rightarrow> jsstring \<Rightarrow> jsstring \<Rightarrow> jsval option \<Rightarrow> action list" where
  "ws_onmessage now rnd event_data parsed =
    (let rawData = sanitizeInput event_data in
     case Option.bind parsed (\<lambda>data. map_option (Pair data) (extract_text data)) of
       None \<Rightarrow> push_segment now rnd rawData
     | Some (data, transcriptionText) \<Rightarrow>
         if get_prop data (js ''type'') = Some (JStr (js ''transcription_status''))
         then [SetIsTranscribing (get_prop data (js ''active'') \<noteq> Some (JBool False))]
         else push_segment now rnd transcriptionText)"

fun is_segment :: "action \<Rightarrow> bool" where
  "is_segment (PushTranscription g) = True"
| "is_segment a = False"

text \<open>
  Timer \<open>h\<close> fires at time \<open>now\<close>: it leaves the pending timers and its task runs (the
  address of the channel is well formed, so the constructor does not throw). The result is
  what the task did and the state after it.
\<close>

definition fire :: "nat \<Rightarrow> int \<Rightarrow> state \<Rightarrow> action list \<times> state" where
  "fire h now s =
    (case timers s h of
       None \<Rightarrow> ([], s)
     | Some (due, k) \<Rightarrow>
         if now < due then ([], s)
         else (let s1 = s\<lparr>timers := (timers s)(h := None)\<rparr>;
                   acts = (case k of Reconnect \<Rightarrow> connectWebSocket True s1
                                   | IndicatorOff \<Rightarrow> [SetIsTranscribing False])
               in (acts, run now acts s1)))"

text \<open>
  The channel closes at time \<open>c\<close> (the browser sets the ready state, then calls
  \<^verbatim>\<open>onerror\<close> when the connection failed, and \<^verbatim>\<open>onclose\<close>).
\<close>

definition channel_closed :: "int \<Rightarrow> state \<Rightarrow> state" where
  "channel_closed c s = run c (ws_onerror @ ws_onclose) (s\<lparr>wsReady := Some CLOSED\<rparr>)"

text \<open>
  A server that does not recover: the channel closes at time \<open>c\<close>, the retry timer fires
  when it is due, and the connection it attempts fails and closes \<open>lat\<close> milliseconds
  later; \<open>n\<close> times over. The result is the times at which a connection was attempted
  (a \<^verbatim>\<open>new WebSocket\<close>), and the last state.
\<close>

fun no_recovery :: "int \<Rightarrow> nat \<Rightarrow> int \<Rightarrow> state \<Rightarrow> int list \<times> state" where
  "no_recovery lat 0 c s = ([], s)"
| "no_recovery lat (Suc n) c s =
    (let s1 = channel_closed c s;
         due = c + 5000;
         (acts, s2) = (case connectionRetry s1 of None \<Rightarrow> ([], s1) | Some h \<Rightarrow> fire h due s1);
         (ts, s3) = no_recovery lat n (due + lat) s2
     in ((if NewWebSocket \<in> set acts then [due] else []) @ ts, s3))"

section \<open>Notions of the specification\<close>

text \<open>A number that is an integer, as \<^verbatim>\<open>Number.isInteger\<close> has it.\<close>

fun is_integer :: "jsnum \<Rightarrow> bool" where
  "is_integer (Fin x) = (of_int \<lfloor>x\<rfloor> = x)"
| "is_integer n = False"

text \<open>A number brought into the range from 0 to 10, NaN counting as 0.\<close>

fun clamped :: "jsnum \<Rightarrow> real" where
  "clamped NaN = 0"
| "clamped NegInf = 0"
| "clamped (Fin x) = max 0 (min 10 x)"
| "clamped PosInf = 10"

text \<open>
  A status message that carries a number in its field \<^verbatim>\<open>text\<close>, and what \<^verbatim>\<open>JSON.parse\<close>
  makes of it.
\<close>

definition status_with_number :: jsstring where
  \<open>status_with_number = js ''{"type":"transcription_status","active":false,"text":5}''\<close>

definition status_with_number_parsed :: jsval where
  "status_with_number_parsed =
     JObj [(js ''type'', JStr (js ''transcription_status'')), (js ''active'', JBool False),
           (js ''text'', JNum (Fin 5))]"

text \<open>A session whose channel is open.\<close>

definition connected_session :: state where
  "connected_session =
     initial_state\<lparr>wsReady := Some OPEN, isConnected := True, sessionStarted := True\<rparr>"

text \<open>Sessions with a line of code, and with 10,001 characters of code.\<close>

definition coding_session :: state where
  "coding_session = initial_state\<lparr>code := js ''x = 1'', sessionStarted := True\<rparr>"

definition oversized_session :: state where
  "oversized_session = initial_state\<lparr>code := replicate 10001 97, sessionStarted := True\<rparr>"

section \<open>Properties of the sanitizer\<close>

lemma replace_all_length: "length (replace_all m s) \<le> length s"
proof (induction m s rule: replace_all.induct)
  case (1 m)
  then show ?case by simp
next
  case (2 m c cs)
  show ?case
  proof (cases "m (c # cs)")
    case None
    with 2 show ?thesis by simp
  next
    case (Some n)
    show ?thesis
    proof (cases "n = 0")
      case True
      with Some 2 show ?thesis by simp
    next
      case False
      with Some 2 have "length (replace_all m (drop (n - 1) cs)) \<le> length (drop (n - 1) cs)"
        by simp
      with Some False show ?thesis by simp
    qed
  qed
qed

lemma replace_all_no_match: "\<not> has_match m s \<Longrightarrow> replace_all m s = s"
  by (induction s) (auto split: option.splits)

lemma replace_all_shrinks: "has_match m s \<Longrightarrow> length (replace_all m s) < length s"
proof (induction s)
  case Nil
  then show ?case by simp
next
  case (Cons c cs)
  show ?case
  proof (cases "m (c # cs)")
    case None
    with Cons show ?thesis by simp
  next
    case (Some n)
    show ?thesis
    proof (cases "n = 0")
      case True
      with Some Cons show ?thesis by simp
    next
      case False
      have "length (replace_all m (drop (n - 1) cs)) \<le> length (drop (n - 1) cs)"
        by (rule replace_all_length)
      with Some False show ?thesis by simp
    qed
  qed
qed

lemma dropWhile_same_length: "length (dropWhile P xs) = length xs \<Longrightarrow> dropWhile P xs = xs"
proof (cases xs)
  case Nil
  then show ?thesis by simp
next
  case (Cons y ys)
  assume l: "length (dropWhile P xs) = length xs"
  have "length (dropWhile P ys) \<le> length ys" by (rule length_dropWhile_le)
  with l Cons show ?thesis by (cases "P y") auto
qed

lemma trim_length: "length (trim s) \<le> length s"
proof -
  have "length (dropWhile is_space (rev (dropWhile is_space s))) \<le> length (dropWhile is_space s)"
    using length_dropWhile_le [of is_space "rev (dropWhile is_space s)"] by simp
  also have "\<dots> \<le> length s" by (rule length_dropWhile_le)
  finally show ?thesis by (simp add: trim_def)
qed

lemma trim_same_length:
  assumes "length (trim s) = length s"
  shows "trim s = s"
proof -
  let ?a = "dropWhile is_space s"
  have 1: "length (dropWhile is_space (rev ?a)) \<le> length ?a"
    using length_dropWhile_le [of is_space "rev ?a"] by simp
  have 2: "length ?a \<le> length s" by (rule length_dropWhile_le)
  from assms have 3: "length (dropWhile is_space (rev ?a)) = length s" by (simp add: trim_def)
  from 1 2 3 have "length ?a = length s" by simp
  then have a: "?a = s" by (rule dropWhile_same_length)
  from 3 a have "length (dropWhile is_space (rev s)) = length (rev s)" by simp
  then have "dropWhile is_space (rev s) = rev s" by (rule dropWhile_same_length)
  with a show ?thesis by (simp add: trim_def)
qed

lemma dropWhile_rev_dropWhile:
  "dropWhile P (rev (dropWhile P (rev (dropWhile P s)))) = rev (dropWhile P (rev (dropWhile P s)))"
proof -
  define a where "a = dropWhile P s"
  define b where "b = dropWhile P (rev a)"
  have "dropWhile P (rev b) = rev b"
  proof (cases "b = []")
    case True
    then show ?thesis by simp
  next
    case False
    have "rev a = takeWhile P (rev a) @ b" by (simp add: b_def)
    then have "rev (rev a) = rev (takeWhile P (rev a) @ b)" by simp
    then have a: "a = rev b @ rev (takeWhile P (rev a))" by simp
    with False have "a \<noteq> []" by auto
    then have "\<not> P (hd a)" unfolding a_def by (rule hd_dropWhile)
    moreover from a False have "hd a = hd (rev b)" by (metis hd_append2 rev_is_Nil_conv)
    ultimately have "\<not> P (hd (rev b))" by simp
    with False show ?thesis by (cases "rev b") auto
  qed
  then show ?thesis by (simp add: a_def b_def)
qed

lemma trim_idem: "trim (trim s) = trim s"
  by (simp add: trim_def dropWhile_rev_dropWhile)

lemma sanitize_trimmed: "trim (sanitizeInput x) = sanitizeInput x"
  by (simp add: sanitizeInput_def trim_idem)

lemma sanitize_clean: "clean y \<Longrightarrow> trim y = y \<Longrightarrow> sanitizeInput y = y"
  by (simp add: sanitizeInput_def clean_def replace_all_no_match)

lemma sanitize_fixed_clean:
  assumes "sanitizeInput y = y"
  shows "clean y"
proof -
  let ?a = "replace_all match_script y"
  let ?b = "replace_all match_javascript ?a"
  let ?c = "replace_all match_handler ?b"
  have t: "length (trim ?c) \<le> length ?c" by (rule trim_length)
  have c: "length ?c \<le> length ?b" by (rule replace_all_length)
  have b: "length ?b \<le> length ?a" by (rule replace_all_length)
  have a: "length ?a \<le> length y" by (rule replace_all_length)
  from assms have e: "length (trim ?c) = length y" by (simp add: sanitizeInput_def)
  from t c b a e have la: "length ?a = length y" and lb: "length ?b = length ?a"
    and lc: "length ?c = length ?b" by simp_all
  from la have 1: "\<not> has_match match_script y" using replace_all_shrinks [of match_script y] by auto
  then have ya: "?a = y" by (rule replace_all_no_match)
  from lb have "\<not> has_match match_javascript ?a"
    using replace_all_shrinks [of match_javascript ?a] by auto
  with ya have 2: "\<not> has_match match_javascript y" by simp
  then have yb: "?b = y" using ya by (simp add: replace_all_no_match)
  from lc have "\<not> has_match match_handler ?b"
    using replace_all_shrinks [of match_handler ?b] by auto
  with yb have 3: "\<not> has_match match_handler y" by simp
  from 1 2 3 show ?thesis by (simp add: clean_def)
qed

lemma sanitize_length: "length (sanitizeInput x) \<le> length x"
proof -
  let ?a = "replace_all match_script x"
  let ?b = "replace_all match_javascript ?a"
  let ?c = "replace_all match_handler ?b"
  have "length (trim ?c) \<le> length ?c" by (rule trim_length)
  also have "\<dots> \<le> length ?b" by (rule replace_all_length)
  also have "\<dots> \<le> length ?a" by (rule replace_all_length)
  also have "\<dots> \<le> length x" by (rule replace_all_length)
  finally show ?thesis by (simp add: sanitizeInput_def)
qed

lemmas sanitize_eval = sanitizeInput_def js_def match_script_def match_javascript_def
  match_handler_def trim_def upper_def is_space_def is_word_def clean_def

text \<open>
  A second pass changes the result of the sanitizer exactly when that result still holds
  a pattern the sanitizer is there to strip.
\<close>

lemma sanitize_fixed_iff_clean:
  "sanitizeInput (sanitizeInput x) = sanitizeInput x \<longleftrightarrow> clean (sanitizeInput x)"
  using sanitize_fixed_clean [of "sanitizeInput x"] sanitize_clean [of "sanitizeInput x"]
    sanitize_trimmed [of x] by blast

text \<open>
  Claim C1 fails on the code: each rule is applied in one pass, so the removal of a match
  can bring the two halves of a pattern together. From
  \<^verbatim>\<open><scr<script>alert(1)</script>ipt>alert(1)</script>\<close> the inner block is removed and
  the result is the script block \<^verbatim>\<open><script>alert(1)</script>\<close>, which a second pass
  removes; likewise \<^verbatim>\<open>jajavascript:vascript:\<close> is sanitized to \<^verbatim>\<open>javascript:\<close>. The
  result of the sanitizer is not clean, and sanitizing it again gives another string.
\<close>

theorem sanitize_not_idempotent:
  "sanitizeInput (js ''<scr<script>alert(1)</script>ipt>alert(1)</script>'') =
     js ''<script>alert(1)</script>'' \<and>
   sanitizeInput (sanitizeInput (js ''<scr<script>alert(1)</script>ipt>alert(1)</script>'')) = [] \<and>
   sanitizeInput (sanitizeInput (js ''<scr<script>alert(1)</script>ipt>alert(1)</script>'')) \<noteq>
     sanitizeInput (js ''<scr<script>alert(1)</script>ipt>alert(1)</script>'') \<and>
   \<not> clean (sanitizeInput (js ''<scr<script>alert(1)</script>ipt>alert(1)</script>'')) \<and>
   sanitizeInput (js ''jajavascript:vascript:'') = js ''javascript:'' \<and>
   sanitizeInput (sanitizeInput (js ''jajavascript:vascript:'')) = []"
proof -
  have a: "sanitizeInput (js ''<scr<script>alert(1)</script>ipt>alert(1)</script>'') =
      js ''<script>alert(1)</script>''"
    by (simp add: sanitize_eval)
  have b: "sanitizeInput (js ''<script>alert(1)</script>'') = []"
    by (simp add: sanitize_eval)
  have c: "js ''<script>alert(1)</script>'' \<noteq> []"
    by (simp add: js_def)
  have d: "\<not> clean (js ''<script>alert(1)</script>'')"
    by (simp add: sanitize_eval)
  have e: "sanitizeInput (js ''jajavascript:vascript:'') = js ''javascript:''"
    by (simp add: sanitize_eval)
  have f: "sanitizeInput (js ''javascript:'') = []"
    by (simp add: sanitize_eval)
  show ?thesis
    unfolding a b e f using c d by simp
qed

section \<open>Properties of the history buffers\<close>

lemma push_transcription_foldl:
  "foldl push_transcription [] xs = drop (length xs - 50) xs"
proof (induction xs rule: rev_induct)
  case Nil
  then show ?case by simp
next
  case (snoc x xs)
  have "length xs - (length xs - 50 + 49) + (length xs - 50) = length xs - 49" by arith
  with snoc show ?case by (simp add: push_transcription_def)
qed

lemma push_snapshot_foldl: "foldl push_snapshot [] xs = take 10 (rev xs)"
proof (induction xs rule: rev_induct)
  case Nil
  then show ?case by simp
next
  case (snoc x xs)
  then show ?case by (simp add: push_snapshot_def take_Cons')
qed

lemma push_feedback_foldl: "foldl push_feedback [] xs = take 5 (rev xs)"
proof (induction xs rule: rev_induct)
  case Nil
  then show ?case by simp
next
  case (snoc x xs)
  then show ?case by (simp add: push_feedback_def take_Cons')
qed

text \<open>
  Claim C5: whatever is pushed, in whatever number, the transcript holds the 50 segments
  pushed last, in the order of their arrival (the oldest has gone), and the snapshots and
  the feedback hold the 10 and the 5 pushed last, newest first; and a push leaves a buffer
  within its capacity whatever the state held before.
\<close>

theorem buffers_bounded:
  "foldl push_transcription [] gs = drop (length gs - 50) gs \<and>
   length (foldl push_transcription [] gs) \<le> 50 \<and>
   foldl push_snapshot [] ps = take 10 (rev ps) \<and>
   length (foldl push_snapshot [] ps) \<le> 10 \<and>
   foldl push_feedback [] fs = take 5 (rev fs) \<and>
   length (foldl push_feedback [] fs) \<le> 5 \<and>
   length (transcription (exec now (PushTranscription g) s)) \<le> 50 \<and>
   length (snapshots (exec now (PushSnapshot p) s)) \<le> 10 \<and>
   length (feedback (exec now (PushFeedback f) s)) \<le> 5"
  by (simp add: push_transcription_foldl push_snapshot_foldl push_feedback_foldl
      push_transcription_def push_snapshot_def push_feedback_def) arith

section \<open>Properties of the stored score\<close>

lemma coerce_score_clamped: "coerce_score conv v = Fin (clamped (Number conv v))"
  by (cases "Number conv v") (auto simp: coerce_score_def Math_max_def Math_min_def or_zero_def)

lemma clamped_range: "0 \<le> clamped n \<and> clamped n \<le> 10"
  by (cases n) auto

lemma clamped_integer: "is_integer n \<Longrightarrow> is_integer (Fin (clamped n))"
  by (cases n) (auto simp: max_def min_def)

lemma newFeedback_score:
  "newFeedback conv now result = Some fb \<Longrightarrow>
     \<exists>sc. get_prop result (js ''score'') = Some sc \<and> score fb = coerce_score conv sc"
  by (auto simp: newFeedback_def split: Option.bind_splits)

lemmas feedback_eval = newFeedback_def coerce_score_def Math_max_def Math_min_def or_zero_def
  or_js_def

text \<open>
  Claim C2, as the code has it: the score of a stored feedback record is the number that
  \<^verbatim>\<open>Number\<close> makes of the response's score, brought into the range from 0 to 10 and 0 when
  it is NaN; it is an integer whenever that number is. A score of 15 is stored as 10, a
  score of -3 as 0.
\<close>

theorem stored_score_clamped:
  "(newFeedback conv now result = Some fb \<longrightarrow>
     (\<exists>sc. get_prop result (js ''score'') = Some sc \<and>
       score fb = Fin (clamped (Number conv sc)) \<and>
       0 \<le> clamped (Number conv sc) \<and> clamped (Number conv sc) \<le> 10 \<and>
       (is_integer (Number conv sc) \<longrightarrow> is_integer (score fb)))) \<and>
   coerce_score conv (JNum (Fin 15)) = Fin 10 \<and>
   coerce_score conv (JNum (Fin (- 3))) = Fin 0"
proof (intro conjI impI)
  assume "newFeedback conv now result = Some fb"
  then obtain sc where sc: "get_prop result (js ''score'') = Some sc"
    and fb: "score fb = coerce_score conv sc"
    using newFeedback_score by blast
  from fb have "score fb = Fin (clamped (Number conv sc))"
    by (simp only: coerce_score_clamped)
  moreover have "0 \<le> clamped (Number conv sc) \<and> clamped (Number conv sc) \<le> 10"
    by (rule clamped_range)
  moreover have "is_integer (Number conv sc) \<longrightarrow> is_integer (Fin (clamped (Number conv sc)))"
    using clamped_integer by blast
  ultimately show "\<exists>sc. get_prop result (js ''score'') = Some sc \<and>
       score fb = Fin (clamped (Number conv sc)) \<and>
       0 \<le> clamped (Number conv sc) \<and> clamped (Number conv sc) \<le> 10 \<and>
       (is_integer (Number conv sc) \<longrightarrow> is_integer (score fb))"
    using sc by metis
next
  show "coerce_score conv (JNum (Fin 15)) = Fin 10" by (simp add: coerce_score_clamped)
next
  show "coerce_score conv (JNum (Fin (- 3))) = Fin 0" by (simp add: coerce_score_clamped)
qed

lemma newFeedback_15:
  "newFeedback NaN 0 (JObj [(js ''score'', JNum (Fin 15))]) =
     Some \<lparr>fb_id = FeedbackId 0, fb_timestamp = 0, score = Fin 10, strengths = [],
       improvements = [], optimizations = [], codeAnalysis = js ''Code analysis completed'',
       speechAnalysis = js ''Speech analysis completed''\<rparr>"
  by (simp add: feedback_eval sanitize_eval)

text \<open>
  Claim C2 at a response whose score is 15: the record is built, and its score is 10, an
  integer in the range.
\<close>

theorem stored_score_clamped_witness:
  "newFeedback NaN 0 (JObj [(js ''score'', JNum (Fin 15))]) =
     Some \<lparr>fb_id = FeedbackId 0, fb_timestamp = 0, score = Fin 10, strengths = [],
       improvements = [], optimizations = [], codeAnalysis = js ''Code analysis completed'',
       speechAnalysis = js ''Speech analysis completed''\<rparr> \<and>
   is_integer (Number NaN (JNum (Fin 15))) \<and>
   is_integer (score \<lparr>fb_id = FeedbackId 0, fb_timestamp = 0, score = Fin 10, strengths = [],
       improvements = [], optimizations = [], codeAnalysis = js ''Code analysis completed'',
       speechAnalysis = js ''Speech analysis completed''\<rparr>)"
  using newFeedback_15
    stored_score_clamped [of NaN 0 "JObj [(js ''score'', JNum (Fin 15))]"
      "\<lparr>fb_id = FeedbackId 0, fb_timestamp = 0, score = Fin 10, strengths = [],
       improvements = [], optimizations = [], codeAnalysis = js ''Code analysis completed'',
       speechAnalysis = js ''Speech analysis completed''\<rparr>"]
  by simp

text \<open>
  Claim C2 as stated fails: a response whose score is 7.5 is stored with the score 7.5,
  which is no integer.
\<close>

theorem fractional_score_stored:
  "map_option score (newFeedback NaN 0 (JObj [(js ''score'', JNum (Fin (15 / 2)))])) =
     Some (Fin (15 / 2)) \<and>
   \<not> is_integer (Fin (15 / 2))"
  by (simp add: feedback_eval sanitize_eval)

section \<open>Properties of reset\<close>

text \<open>
  Claim C3, as the code has it: a reset empties the three history buffers and stops the
  automatic evaluation; it does not touch the channel: no close is issued, and the ready
  state, the connection flag and the retry timer stay as they were.
\<close>

theorem reset_clears:
  "snapshots (run now handleReset s) = [] \<and>
   transcription (run now handleReset s) = [] \<and>
   feedback (run now handleReset s) = [] \<and>
   \<not> auto_feedback (run now handleReset s) \<and>
   WsClose \<notin> set handleReset \<and>
   wsReady (run now handleReset s) = wsReady s \<and>
   isConnected (run now handleReset s) = isConnected s \<and>
   connectionRetry (run now handleReset s) = connectionRetry s \<and>
   timers (run now handleReset s) = timers s"
  by (simp add: handleReset_def run_def auto_feedback_def)

lemma cleanup_closes: "wsReady s = Some OPEN \<Longrightarrow> WsClose \<in> set (effect_cleanup s)"
  by (simp add: effect_cleanup_def)

text \<open>
  Claim C3 as stated fails: after the reset of a session whose channel is open, the
  channel is open still, and no close was issued.
\<close>

theorem reset_keeps_channel:
  "wsReady (run 0 handleReset connected_session) = Some OPEN \<and>
   isConnected (run 0 handleReset connected_session) \<and>
   WsClose \<notin> set handleReset"
  by (simp add: handleReset_def run_def connected_session_def initial_state_def)

section \<open>Properties of the evaluation request coordinator\<close>

lemma rate_gate_closed:
  "now - lastApiCall s < 2000 \<Longrightarrow> requestFeedback s now res conv now2 = []"
  by (simp add: requestFeedback_def)

lemma content_gate_closed:
  "trim (code s) = [] \<or> 10000 < length (code s) \<Longrightarrow>
     requestFeedback s now res conv now2 =
       (if now - lastApiCall s < 2000 then [] else [WriteLastApiCall now])"
  by (auto simp: requestFeedback_def)

lemma on_response_no_fetch: "filter is_fetch (on_response s sc res conv now2) = []"
  by (auto simp: on_response_def split: fetch_result.splits option.splits)

lemma on_response_failed:
  "failed conv now2 res \<Longrightarrow> on_response s sc res conv now2 = [SetApiServerConnected False]"
  by (cases "(conv, now2, res)" rule: failed.cases) (auto simp: on_response_def)

lemma accepted_dispatches_once:
  "2000 \<le> now - lastApiCall s \<Longrightarrow> trim (code s) \<noteq> [] \<Longrightarrow> length (code s) \<le> 10000 \<Longrightarrow>
   sanitizeInput (trim (code s)) \<noteq> [] \<Longrightarrow>
     dispatches (requestFeedback s now res conv now2) = 1"
  by (simp add: requestFeedback_def dispatches_def Let_def on_response_no_fetch)

lemma passed_rate_gate_clock:
  "2000 \<le> now - lastApiCall s \<Longrightarrow>
     lastApiCall (run now (requestFeedback s now res conv now2) s) = now"
  by (auto simp: requestFeedback_def on_response_def run_def Let_def
      split: fetch_result.splits option.splits)

lemma coding_session_accepted:
  "lastApiCall coding_session = 0 \<and> trim (code coding_session) \<noteq> [] \<and>
   length (code coding_session) \<le> 10000 \<and> sanitizeInput (trim (code coding_session)) \<noteq> []"
  by (simp add: coding_session_def initial_state_def sanitize_eval)

lemma oversized_session_code:
  "lastApiCall oversized_session = 0 \<and> 10000 < length (code oversized_session)"
  by (simp add: oversized_session_def initial_state_def)

text \<open>
  Claim C4: a call made fewer than 2000 ms after the time in \<^verbatim>\<open>lastApiCall\<close> does
  nothing, whoever calls; so when a call at \<open>t1\<close> is accepted and dispatched, a second
  call at \<open>t2\<close>, fewer than 2000 ms later, on any state that holds the clock of the first,
  does nothing, and the two calls together dispatch exactly one request.
\<close>

theorem rate_gate:
  "(now - lastApiCall s0 < 2000 \<longrightarrow> requestFeedback s0 now res conv now2 = []) \<and>
   (2000 \<le> t1 - lastApiCall s \<and> trim (code s) \<noteq> [] \<and> length (code s) \<le> 10000 \<and>
    sanitizeInput (trim (code s)) \<noteq> [] \<and>
    lastApiCall s' = lastApiCall (run t1 (requestFeedback s t1 res1 conv1 r1) s) \<and>
    t2 - t1 < 2000 \<longrightarrow>
      requestFeedback s' t2 res2 conv2 r2 = [] \<and>
      dispatches (requestFeedback s t1 res1 conv1 r1 @ requestFeedback s' t2 res2 conv2 r2) = 1)"
  using accepted_dispatches_once [of t1 s res1 conv1 r1]
    passed_rate_gate_clock [of t1 s res1 conv1 r1]
  by (auto simp: rate_gate_closed)

text \<open>
  Claim C4 at a session with a line of code: a first call at 5000 ms is dispatched, a
  second at 6000 ms does nothing, and one request has been dispatched in all.
\<close>

theorem rate_gate_witness:
  "(6000::int) - lastApiCall (coding_session\<lparr>lastApiCall := 5000\<rparr>) < 2000 \<and>
   requestFeedback (coding_session\<lparr>lastApiCall := 5000\<rparr>) 6000 FetchRejected NaN 6100 = [] \<and>
   requestFeedback
     (run 5000 (requestFeedback coding_session 5000 FetchRejected NaN 5100) coding_session)
     6000 FetchRejected NaN 6100 = [] \<and>
   dispatches (requestFeedback coding_session 5000 FetchRejected NaN 5100 @
     requestFeedback
       (run 5000 (requestFeedback coding_session 5000 FetchRejected NaN 5100) coding_session)
       6000 FetchRejected NaN 6100) = 1"
proof -
  have a: "(6000::int) - lastApiCall (coding_session\<lparr>lastApiCall := 5000\<rparr>) < 2000"
    by simp
  have b: "2000 \<le> 5000 - lastApiCall coding_session \<and> trim (code coding_session) \<noteq> [] \<and>
      length (code coding_session) \<le> 10000 \<and>
      sanitizeInput (trim (code coding_session)) \<noteq> [] \<and>
      lastApiCall
        (run 5000 (requestFeedback coding_session 5000 FetchRejected NaN 5100) coding_session) =
      lastApiCall
        (run 5000 (requestFeedback coding_session 5000 FetchRejected NaN 5100) coding_session) \<and>
      (6000::int) - 5000 < 2000"
    using coding_session_accepted by simp
  from a b
    rate_gate [of 6000 "coding_session\<lparr>lastApiCall := 5000\<rparr>" FetchRejected NaN 6100
      5000 coding_session
      "run 5000 (requestFeedback coding_session 5000 FetchRejected NaN 5100) coding_session"
      FetchRejected NaN 5100 6000 FetchRejected NaN 6100]
  show ?thesis by blast
qed

text \<open>
  Claim C7: when the code is empty after trimming, or longer than 10,000 characters, a call
  does at most the write of the rate clock: it dispatches nothing and never sets the
  evaluating flag.
\<close>

theorem content_gate:
  "trim (code s) = [] \<or> 10000 < length (code s) \<Longrightarrow>
     requestFeedback s now res conv now2 =
       (if now - lastApiCall s < 2000 then [] else [WriteLastApiCall now]) \<and>
     dispatches (requestFeedback s now res conv now2) = 0 \<and>
     SetIsEvaluating True \<notin> set (requestFeedback s now res conv now2) \<and>
     isEvaluating (run now (requestFeedback s now res conv now2) s) = isEvaluating s"
  by (simp add: content_gate_closed dispatches_def run_def)

text \<open>Claim C7 at code of 10,001 characters.\<close>

theorem content_gate_witness:
  "length (code oversized_session) = 10001 \<and>
   dispatches (requestFeedback oversized_session 5000 (Response 200 (Some (JObj []))) NaN 5100) = 0 \<and>
   SetIsEvaluating True \<notin>
     set (requestFeedback oversized_session 5000 (Response 200 (Some (JObj []))) NaN 5100) \<and>
   \<not> isEvaluating (run 5000
     (requestFeedback oversized_session 5000 (Response 200 (Some (JObj []))) NaN 5100)
     oversized_session)"
proof -
  have a: "trim (code oversized_session) = [] \<or> 10000 < length (code oversized_session)"
    using oversized_session_code by simp
  have b: "length (code oversized_session) = 10001" "\<not> isEvaluating oversized_session"
    by (simp_all add: oversized_session_def initial_state_def)
  from b content_gate [OF a, of 5000 "Response 200 (Some (JObj []))" NaN 5100]
  show ?thesis by blast
qed

text \<open>
  Claim C9: a call that passes the rate gate writes the rate clock before the content gate
  is looked at; so after a call at \<open>t\<close> that the content gate rejects, a call at \<open>t2\<close>,
  fewer than 2000 ms later, does nothing whatever the code is by then, and the two calls
  dispatch no request.
\<close>

theorem content_rejection_advances_clock:
  "2000 \<le> t - lastApiCall s \<Longrightarrow> trim (code s) = [] \<or> 10000 < length (code s) \<Longrightarrow>
   lastApiCall s' = lastApiCall (run t (requestFeedback s t res1 conv1 r1) s) \<Longrightarrow>
   t2 - t < 2000 \<Longrightarrow>
     requestFeedback s t res1 conv1 r1 = [WriteLastApiCall t] \<and>
     lastApiCall (run t (requestFeedback s t res1 conv1 r1) s) = t \<and>
     requestFeedback s' t2 res2 conv2 r2 = [] \<and>
     dispatches (requestFeedback s t res1 conv1 r1 @ requestFeedback s' t2 res2 conv2 r2) = 0"
  using passed_rate_gate_clock [of t s res1 conv1 r1]
  by (simp add: content_gate_closed rate_gate_closed dispatches_def)

text \<open>
  Claim C9 at code of 10,001 characters, replaced by a line of code before the second call.
\<close>

theorem content_rejection_advances_clock_witness:
  "requestFeedback oversized_session 5000 FetchRejected NaN 5100 = [WriteLastApiCall 5000] \<and>
   code ((run 5000 (requestFeedback oversized_session 5000 FetchRejected NaN 5100)
           oversized_session)\<lparr>code := js ''x = 1''\<rparr>) = js ''x = 1'' \<and>
   requestFeedback
     ((run 5000 (requestFeedback oversized_session 5000 FetchRejected NaN 5100)
         oversized_session)\<lparr>code := js ''x = 1''\<rparr>)
     6999 (Response 200 (Some (JObj []))) NaN 7100 = [] \<and>
   dispatches (requestFeedback oversized_session 5000 FetchRejected NaN 5100 @
     requestFeedback
       ((run 5000 (requestFeedback oversized_session 5000 FetchRejected NaN 5100)
           oversized_session)\<lparr>code := js ''x = 1''\<rparr>)
       6999 (Response 200 (Some (JObj []))) NaN 7100) = 0"
proof -
  have a: "2000 \<le> 5000 - lastApiCall oversized_session" and
    b: "trim (code oversized_session) = [] \<or> 10000 < length (code oversized_session)"
    using oversized_session_code by simp_all
  have c: "lastApiCall ((run 5000 (requestFeedback oversized_session 5000 FetchRejected NaN 5100)
          oversized_session)\<lparr>code := js ''x = 1''\<rparr>) =
      lastApiCall (run 5000 (requestFeedback oversized_session 5000 FetchRejected NaN 5100)
          oversized_session)"
    by simp
  have d: "(6999::int) - 5000 < 2000" by simp
  have e: "code ((run 5000 (requestFeedback oversized_session 5000 FetchRejected NaN 5100)
           oversized_session)\<lparr>code := js ''x = 1''\<rparr>) = js ''x = 1''"
    by simp
  from e content_rejection_advances_clock [OF a b c d, of "Response 200 (Some (JObj []))" NaN 7100]
  show ?thesis by blast
qed

text \<open>
  Claim C6: an accepted request ends by clearing the evaluating flag, whatever happened;
  and when it was dispatched and failed (the dispatch was rejected or timed out, the status
  was not a success, the body was not JSON or could not be coerced), no history buffer is
  written and the availability of the evaluation service is set to false.
\<close>

theorem failure_cleanup:
  "2000 \<le> now - lastApiCall s \<Longrightarrow> trim (code s) \<noteq> [] \<Longrightarrow> length (code s) \<le> 10000 \<Longrightarrow>
     last (requestFeedback s now res conv now2) = SetIsEvaluating False \<and>
     isEvaluating (run now (requestFeedback s now res conv now2) s) = False \<and>
     (sanitizeInput (trim (code s)) \<noteq> [] \<and> failed conv now2 res \<longrightarrow>
        filter is_push (requestFeedback s now res conv now2) = [] \<and>
        snapshots (run now (requestFeedback s now res conv now2) s) = snapshots s \<and>
        transcription (run now (requestFeedback s now res conv now2) s) = transcription s \<and>
        feedback (run now (requestFeedback s now res conv now2) s) = feedback s \<and>
        apiServerConnected (run now (requestFeedback s now res conv now2) s) = False)"
  by (auto simp: requestFeedback_def Let_def run_def on_response_failed)

text \<open>
  Claim C6 at a session with a line of code whose request is answered with status 500.
\<close>

theorem failure_cleanup_witness:
  "failed NaN 5100 (Response 500 (Some (JObj []))) \<and>
   \<not> isEvaluating (run 5000
      (requestFeedback coding_session 5000 (Response 500 (Some (JObj []))) NaN 5100)
      coding_session) \<and>
   feedback (run 5000
      (requestFeedback coding_session 5000 (Response 500 (Some (JObj []))) NaN 5100)
      coding_session) = [] \<and>
   snapshots (run 5000
      (requestFeedback coding_session 5000 (Response 500 (Some (JObj []))) NaN 5100)
      coding_session) = [] \<and>
   \<not> apiServerConnected (run 5000
      (requestFeedback coding_session 5000 (Response 500 (Some (JObj []))) NaN 5100)
      coding_session)"
proof -
  have a: "2000 \<le> 5000 - lastApiCall coding_session" "trim (code coding_session) \<noteq> []"
    "length (code coding_session) \<le> 10000"
    using coding_session_accepted by simp_all
  have b: "sanitizeInput (trim (code coding_session)) \<noteq> []"
    using coding_session_accepted by simp
  have c: "failed NaN 5100 (Response 500 (Some (JObj [])))" by simp
  have d: "feedback coding_session = []" "snapshots coding_session = []"
    by (simp_all add: coding_session_def initial_state_def)
  from b c d failure_cleanup [OF a, of "Response 500 (Some (JObj []))" NaN 5100]
  show ?thesis by simp
qed

section \<open>Properties of the connection state machine\<close>

lemma closed_schedules:
  "connectionRetry (channel_closed c s) = Some (nextTimer s) \<and>
   timers (channel_closed c s) (nextTimer s) = Some (c + 5000, Reconnect) \<and>
   wsReady (channel_closed c s) = Some CLOSED"
  by (simp add: channel_closed_def ws_onerror_def ws_onclose_def run_def)

lemma fire_retry:
  "timers s h = Some (due, Reconnect) \<Longrightarrow> wsReady s = Some CLOSED \<Longrightarrow>
     fst (fire h due s) = [NewWebSocket]"
  by (simp add: fire_def connectWebSocket_def Let_def)

lemma fire_early:
  "timers s h = Some (due, k) \<Longrightarrow> now < due \<Longrightarrow> fire h now s = ([], s)"
  by (simp add: fire_def)

lemma no_recovery_Suc:
  "fst (no_recovery lat (Suc n) c s) =
     (c + 5000) # fst (no_recovery lat n (c + 5000 + lat)
        (snd (fire (nextTimer s) (c + 5000) (channel_closed c s))))"
  using closed_schedules [of c s] fire_retry [of "channel_closed c s" "nextTimer s" "c + 5000"]
  by (simp add: Let_def split_beta)

lemma no_recovery_times:
  "fst (no_recovery lat n c s) = map (\<lambda>k. c + 5000 + int k * (5000 + lat)) [0..<n]"
proof (induction n arbitrary: c s)
  case 0
  then show ?case by simp
next
  case (Suc n)
  show ?case
    unfolding no_recovery_Suc Suc.IH map_upt_Suc
    by (simp add: algebra_simps)
qed

lemma first_three: "take 3 (map f [0..<3 + n]) = [f 0, f 1, f 2]"
proof -
  have "take 3 [0..<3 + n] = [0..<0 + 3]" by (rule take_upt) simp
  also have "\<dots> = [0, 1, 2]" by (simp add: upt_rec)
  finally show ?thesis by (simp add: take_map)
qed

lemma first_three_times:
  "take 3 (fst (no_recovery lat (3 + n) c s)) = [c + 5000, c + 10000 + lat, c + 15000 + 2 * lat]"
  by (simp add: no_recovery_times first_three)

text \<open>
  Claim C8, as the code has it: every close of the channel leaves a timer that is due
  5000 ms later and whose task is to connect; the timer does nothing before it is due, and
  when it fires a connection is attempted. While the server does not recover this goes on
  without bound: \<open>n\<close> closes are followed by \<open>n\<close> attempts, for every \<open>n\<close>, each 5000 ms
  after the close before it. The delay runs from the close, so when a failed attempt
  closes \<open>lat\<close> ms after it was made the first three attempts come 5000, 10000 + \<open>lat\<close>
  and 15000 + 2 \<open>lat\<close> ms after the first close.
\<close>

theorem reconnect_unbounded:
  "connectionRetry (channel_closed c s) = Some (nextTimer s) \<and>
   timers (channel_closed c s) (nextTimer s) = Some (c + 5000, Reconnect) \<and>
   fire (nextTimer s) (c + 4999) (channel_closed c s) = ([], channel_closed c s) \<and>
   fst (fire (nextTimer s) (c + 5000) (channel_closed c s)) = [NewWebSocket] \<and>
   fst (no_recovery lat n c s) = map (\<lambda>k. c + 5000 + int k * (5000 + lat)) [0..<n] \<and>
   length (fst (no_recovery lat n c s)) = n \<and>
   take 3 (fst (no_recovery lat (3 + n) c s)) =
     [c + 5000, c + 10000 + lat, c + 15000 + 2 * lat]"
  using closed_schedules [of c s]
    fire_retry [of "channel_closed c s" "nextTimer s" "c + 5000"]
    fire_early [of "channel_closed c s" "nextTimer s" "c + 5000" Reconnect "c + 4999"]
    first_three_times [of lat n c s]
  by (simp add: no_recovery_times)

text \<open>
  Claim C8 as stated fails: when each failed attempt closes 100 ms after it was made, the
  attempts after a close at time 0 come at 5000, 10100, 15200 and 20300 ms, and only two of
  them fall within 15 seconds.
\<close>

theorem two_attempts_in_15s:
  "fst (no_recovery 100 4 0 initial_state) = [5000, 10100, 15200, 20300] \<and>
   filter (\<lambda>t. t \<le> 15000) (fst (no_recovery 100 4 0 initial_state)) = [5000, 10100] \<and>
   length (filter (\<lambda>t. t \<le> 15000) (fst (no_recovery 100 4 0 initial_state))) < 3"
proof -
  have "[0..<4] = [0, 1, 2, 3]" by (simp add: upt_rec)
  then have "fst (no_recovery 100 4 0 initial_state) = [5000, 10100, 15200, 20300]"
    by (simp add: no_recovery_times)
  then show ?thesis by simp
qed

section \<open>Properties of the message handler\<close>

lemma sanitize_status: "sanitizeInput status_with_number = status_with_number"
  by (simp add: status_with_number_def sanitize_eval)

lemma extract_throws: "extract_text status_with_number_parsed = None"
  by (simp add: extract_text_def status_with_number_parsed_def or_js_def js_def)

text \<open>
  A status message whose text is extracted without an exception only sets the speaking
  indicator, to true unless its field \<^verbatim>\<open>active\<close> is \<^verbatim>\<open>false\<close>.
\<close>

lemma status_message:
  "extract_text data = Some txt \<Longrightarrow>
   get_prop data (js ''type'') = Some (JStr (js ''transcription_status'')) \<Longrightarrow>
     ws_onmessage now rnd event_data (Some data) =
       [SetIsTranscribing (get_prop data (js ''active'') \<noteq> Some (JBool False))]"
  by (simp add: ws_onmessage_def)

text \<open>
  Claim C10 fails on the code at a status message that carries a number in its field
  \<^verbatim>\<open>text\<close>: the message is parsed and it is tagged \<^verbatim>\<open>transcription_status\<close> with
  \<^verbatim>\<open>active\<close> false, but \<^verbatim>\<open>sanitizeInput\<close> throws on the number before the tag is looked
  at, the \<^verbatim>\<open>catch\<close> written for the parser takes the payload for the text, and a
  transcript segment holding the JSON is pushed and the speaking indicator set to true.
\<close>

theorem status_with_number_pushes_segment:
  "sanitizeInput status_with_number = status_with_number \<and>
   get_prop status_with_number_parsed (js ''type'') = Some (JStr (js ''transcription_status'')) \<and>
   get_prop status_with_number_parsed (js ''active'') = Some (JBool False) \<and>
   ws_onmessage now rnd status_with_number (Some status_with_number_parsed) =
     [PushTranscription \<lparr>seg_id = TransId now rnd, seg_text = status_with_number,
        seg_timestamp = now, seg_confidence = 1\<rparr>,
      SetIsTranscribing True, SetTimeout 1000 IndicatorOff] \<and>
   filter is_segment
     (ws_onmessage now rnd status_with_number (Some status_with_number_parsed)) \<noteq> [] \<and>
   isTranscribing (run now
     (ws_onmessage now rnd status_with_number (Some status_with_number_parsed)) s)"
proof -
  have m: "ws_onmessage now rnd status_with_number (Some status_with_number_parsed) =
     [PushTranscription \<lparr>seg_id = TransId now rnd, seg_text = status_with_number,
        seg_timestamp = now, seg_confidence = 1\<rparr>,
      SetIsTranscribing True, SetTimeout 1000 IndicatorOff]"
    by (simp add: ws_onmessage_def extract_throws sanitize_status push_segment_def)
      (simp add: status_with_number_def js_def)
  have t: "get_prop status_with_number_parsed (js ''type'') =
      Some (JStr (js ''transcription_status'')) \<and>
    get_prop status_with_number_parsed (js ''active'') = Some (JBool False)"
    by (simp add: status_with_number_parsed_def js_def)
  show ?thesis
    unfolding m using t sanitize_status by (simp add: run_def)
qed

end
